theory Spec2Isabelle
  imports Complex_Main
begin

section \<open>JavaScript values reaching the handler\<close>

text \<open>
  The server of the repository (\<^verbatim>\<open>server/server.js\<close>) has one route with logic,
  \<^verbatim>\<open>POST /create-checkout-session\<close>. Its handler reads \<^verbatim>\<open>req.body\<close>, which
  \<^verbatim>\<open>express.json()\<close> fills with the parsed JSON document, checks the price, builds the
  argument of \<^verbatim>\<open>stripe.checkout.sessions.create\<close>, awaits that call and answers with
  \<^verbatim>\<open>res.json\<close> (lines 137 to 170 of \<^verbatim>\<open>src/index.js\<close>). The specification calls
  this operation \<^verbatim>\<open>createSession\<close>.

  A JavaScript number is an IEEE double. Every finite double is a rational number, and the
  handler never computes with a number: it only asks \<^verbatim>\<open>Number.isInteger\<close> and
  \<^verbatim>\<open>price <= 0\<close>. A finite number is therefore modelled by its exact rational value
  (the two zeros of IEEE coincide; both answer the two tests alike).
\<close>

datatype jsnumber = Finite rat | PosInfinity | NegInfinity | NaN

text \<open>
  The values that \<^verbatim>\<open>JSON.parse\<close> produces, and \<^verbatim>\<open>undefined\<close> for what is absent.
  An object is the list of its own properties; a lookup takes the first entry of a key.
\<close>

datatype jsvalue =
    Undefined
  | Null
  | JBoolean bool
  | JNumber jsnumber
  | JString string
  | JArray "jsvalue list"
  | JObject "(string \<times> jsvalue) list"

text \<open>
  A thrown value: an \<^verbatim>\<open>Error\<close> object with its \<^verbatim>\<open>name\<close> and its \<^verbatim>\<open>message\<close>.
  The Stripe client rejects with such objects, and so does the engine (\<^verbatim>\<open>TypeError\<close>).
\<close>

datatype js_error = JsError (error_name: string) (message: string)

definition TypeError :: "string \<Rightarrow> js_error" where
  "TypeError msg = JsError ''TypeError'' msg"

subsection \<open>Built-in operations the handler uses\<close>

text \<open>\<^verbatim>\<open>ToBoolean\<close>, which decides \<^verbatim>\<open>a || b\<close>.\<close>

fun ToBoolean :: "jsvalue \<Rightarrow> bool" where
  "ToBoolean Undefined = False"
| "ToBoolean Null = False"
| "ToBoolean (JBoolean b) = b"
| "ToBoolean (JNumber (Finite q)) = (q \<noteq> 0)"
| "ToBoolean (JNumber NaN) = False"
| "ToBoolean (JNumber _) = True"
| "ToBoolean (JString s) = (s \<noteq> [])"
| "ToBoolean (JArray _) = True"
| "ToBoolean (JObject _) = True"

text \<open>
  Reading a property \<^verbatim>\<open>v.k\<close>, for the keys the handler reads (\<^verbatim>\<open>price\<close>,
  \<^verbatim>\<open>quantity\<close>, \<^verbatim>\<open>name\<close>, \<^verbatim>\<open>url\<close>): none of them is defined on a built-in
  prototype, so only an own property of an object answers; reading from \<^verbatim>\<open>undefined\<close>
  or \<^verbatim>\<open>null\<close> throws a \<^verbatim>\<open>TypeError\<close> (the message is the one of Node's engine).
\<close>

fun get_field :: "jsvalue \<Rightarrow> string \<Rightarrow> js_error + jsvalue" where
  "get_field Undefined k =
     Inl (TypeError (''Cannot read properties of undefined (reading '' @ [CHR 0x27] @ k @ [CHR 0x27] @ '')''))"
| "get_field Null k =
     Inl (TypeError (''Cannot read properties of null (reading '' @ [CHR 0x27] @ k @ [CHR 0x27] @ '')''))"
| "get_field (JObject ps) k = Inr (case map_of ps k of Some v \<Rightarrow> v | None \<Rightarrow> Undefined)"
| "get_field _ k = Inr Undefined"

text \<open>
  \<^verbatim>\<open>Number.isInteger(v)\<close>: \<^verbatim>\<open>v\<close> is a number, finite, and equal to its floor.
\<close>

fun Number_isInteger :: "jsvalue \<Rightarrow> bool" where
  "Number_isInteger (JNumber (Finite q)) = (rat_of_int \<lfloor>q\<rfloor> = q)"
| "Number_isInteger _ = False"

text \<open>\<^verbatim>\<open>n <= 0\<close> on numbers.\<close>

fun le_zero :: "jsnumber \<Rightarrow> bool" where
  "le_zero (Finite q) = (q \<le> 0)"
| "le_zero NegInfinity = True"
| "le_zero PosInfinity = False"
| "le_zero NaN = False"

text \<open>
  \<^verbatim>\<open>String(v)\<close>. The digits of a number are those of \<^verbatim>\<open>Number::toString\<close> of
  ECMAScript, which depends on the rounding of doubles: it is the parameter \<open>n2s\<close>.
  An array is joined with commas, \<^verbatim>\<open>undefined\<close> and \<^verbatim>\<open>null\<close> elements giving the
  empty string. A parsed object has no callable property of its own: if it has an own
  property \<^verbatim>\<open>toString\<close>, that one hides \<^verbatim>\<open>Object.prototype.toString\<close>, is not
  callable, \<^verbatim>\<open>valueOf\<close> gives no primitive either, and the conversion throws.
\<close>

fun js_String :: "(jsnumber \<Rightarrow> string) \<Rightarrow> jsvalue \<Rightarrow> js_error + string"
  and join_elements :: "(jsnumber \<Rightarrow> string) \<Rightarrow> jsvalue list \<Rightarrow> js_error + string"
where
  "js_String n2s Undefined = Inr ''undefined''"
| "js_String n2s Null = Inr ''null''"
| "js_String n2s (JBoolean b) = Inr (if b then ''true'' else ''false'')"
| "js_String n2s (JNumber n) = Inr (n2s n)"
| "js_String n2s (JString s) = Inr s"
| "js_String n2s (JArray xs) = join_elements n2s xs"
| "js_String n2s (JObject ps) =
     (if ''toString'' \<in> set (map fst ps)
      then Inl (TypeError ''Cannot convert object to primitive value'')
      else Inr ''[object Object]'')"
| "join_elements n2s [] = Inr []"
| "join_elements n2s (x # xs) =
     (case (if x = Undefined \<or> x = Null then Inr [] else js_String n2s x) of
        Inl e \<Rightarrow> Inl e
      | Inr s \<Rightarrow>
         (if xs = [] then Inr s
          else case join_elements n2s xs of
                 Inl e \<Rightarrow> Inl e
               | Inr t \<Rightarrow> Inr (s @ '','' @ t)))"

section \<open>The request handler\<close>

text \<open>The argument of \<^verbatim>\<open>stripe.checkout.sessions.create\<close>, as the object literal has it.\<close>

record product_data =
  name :: string

record price_data =
  currency :: string
  product_data :: product_data
  unit_amount :: jsvalue

record line_item =
  price_data :: price_data
  quantity :: jsvalue

record session_params =
  mode :: string
  payment_method_types :: "string list"
  line_items :: "line_item list"
  success_url :: string
  cancel_url :: string

text \<open>What \<^verbatim>\<open>res.status(c).json(obj)\<close> sends; \<^verbatim>\<open>res.json(obj)\<close> sends status 200.\<close>

record response =
  status :: nat
  json :: "(string \<times> jsvalue) list"

text \<open>
  Everything outside the handler that it can change: the payment provider (its state,
  of any type, and the calls it received) and the lines written by \<^verbatim>\<open>console.error\<close>.
\<close>

record 'p world =
  provider_state :: 'p
  provider_calls :: "session_params list"
  console_errors :: "js_error list"

text \<open>
  The provider's call: from its state and the argument, the awaited outcome (a rejection
  or exception, or the session object) and its next state.
\<close>

type_synonym 'p provider = "'p \<Rightarrow> session_params \<Rightarrow> (js_error + jsvalue) \<times> 'p"

text \<open>\<^verbatim>\<open>req.body || {}\<close>\<close>

definition body_or_empty :: "jsvalue \<Rightarrow> jsvalue" where
  "body_or_empty req_body = (if ToBoolean req_body then req_body else JObject [])"

text \<open>A destructuring default \<^verbatim>\<open>k = d\<close>: the default stands in for \<^verbatim>\<open>undefined\<close> only.\<close>

definition or_default :: "jsvalue \<Rightarrow> jsvalue \<Rightarrow> jsvalue" where
  "or_default v d = (if v = Undefined then d else v)"

text \<open>
  \<^verbatim>\<open>const { price = 1500, quantity = 1, name = 'Test Product' } = body\<close>
\<close>

definition destructure :: "jsvalue \<Rightarrow> js_error + (jsvalue \<times> jsvalue \<times> jsvalue)" where
  "destructure body =
     (case get_field body ''price'' of
        Inl e \<Rightarrow> Inl e
      | Inr p \<Rightarrow>
         (case get_field body ''quantity'' of
            Inl e \<Rightarrow> Inl e
          | Inr q \<Rightarrow>
             (case get_field body ''name'' of
                Inl e \<Rightarrow> Inl e
              | Inr n \<Rightarrow>
                  Inr (or_default p (JNumber (Finite 1500)),
                       or_default q (JNumber (Finite 1)),
                       or_default n (JString ''Test Product'')))))"

text \<open>
  \<^verbatim>\<open>!Number.isInteger(price) || price <= 0\<close>. For a value that is not a number the
  left operand is true and the comparison is not evaluated.
\<close>

definition price_check_fails :: "jsvalue \<Rightarrow> bool" where
  "price_check_fails price =
     (case price of
        JNumber n \<Rightarrow> \<not> Number_isInteger price \<or> le_zero n
      | _ \<Rightarrow> True)"

text \<open>\<^verbatim>\<open>process.env.FRONTEND_URL || 'http://localhost:3000'\<close>; an unset variable is \<open>None\<close>.\<close>

definition YOUR_DOMAIN :: "string option \<Rightarrow> string" where
  "YOUR_DOMAIN frontend_url =
     (case frontend_url of
        None \<Rightarrow> ''http://localhost:3000''
      | Some u \<Rightarrow> if u = [] then ''http://localhost:3000'' else u)"

text \<open>The object literal passed to the provider, \<open>display\<close> being \<^verbatim>\<open>String(name)\<close>.\<close>

definition checkout_params :: "string option \<Rightarrow> jsvalue \<Rightarrow> jsvalue \<Rightarrow> string \<Rightarrow> session_params" where
  "checkout_params frontend_url price qty display =
     \<lparr> mode = ''payment'',
       payment_method_types = [''card''],
       line_items =
         [\<lparr> price_data =
              \<lparr> currency = ''eur'',
                product_data = \<lparr> name = display \<rparr>,
                unit_amount = price \<rparr>,
            quantity = qty \<rparr>],
       success_url = YOUR_DOMAIN frontend_url @ ''/success?session_id={CHECKOUT_SESSION_ID}'',
       cancel_url = YOUR_DOMAIN frontend_url @ ''/cancelled'' \<rparr>"

text \<open>
  The body of the \<^verbatim>\<open>try\<close> block: \<open>Inl\<close> is an exception on its way to the
  \<^verbatim>\<open>catch\<close> clause, \<open>Inr\<close> the response sent.
\<close>

definition try_block ::
  "(jsnumber \<Rightarrow> string) \<Rightarrow> string option \<Rightarrow> 'p provider \<Rightarrow> jsvalue \<Rightarrow> 'p world
     \<Rightarrow> (js_error + response) \<times> 'p world" where
  "try_block n2s frontend_url create req_body w =
     (case destructure (body_or_empty req_body) of
        Inl e \<Rightarrow> (Inl e, w)
      | Inr (price, qty, nm) \<Rightarrow>
          if price_check_fails price
          then (Inr \<lparr> status = 400, json = [(''error'', JString ''price must be a positive integer (in cents)'')] \<rparr>, w)
          else
            (case js_String n2s nm of
               Inl e \<Rightarrow> (Inl e, w)
             | Inr display \<Rightarrow>
                 let params = checkout_params frontend_url price qty display;
                     (outcome, p') = create (provider_state w) params;
                     w' = w \<lparr> provider_state := p',
                              provider_calls := provider_calls w @ [params] \<rparr>
                 in (case outcome of
                       Inl e \<Rightarrow> (Inl e, w')
                     | Inr session \<Rightarrow>
                         (case get_field session ''url'' of
                            Inl e \<Rightarrow> (Inl e, w')
                          | Inr u \<Rightarrow> (Inr \<lparr> status = 200, json = [(''url'', u)] \<rparr>, w')))))"

text \<open>
  The handler: the \<^verbatim>\<open>try\<close> block, and the \<^verbatim>\<open>catch\<close> clause that logs the error
  and answers 500 with its message.
\<close>

definition create_checkout_session ::
  "(jsnumber \<Rightarrow> string) \<Rightarrow> string option \<Rightarrow> 'p provider \<Rightarrow> jsvalue \<Rightarrow> 'p world
     \<Rightarrow> response \<times> 'p world" where
  "create_checkout_session n2s frontend_url create req_body w =
     (case try_block n2s frontend_url create req_body w of
        (Inr r, w') \<Rightarrow> (r, w')
      | (Inl err, w') \<Rightarrow>
          (\<lparr> status = 500, json = [(''error'', JString (message err))] \<rparr>,
           w' \<lparr> console_errors := console_errors w' @ [err] \<rparr>))"

section \<open>Test doubles\<close>

text \<open>
  The provider stubs of the specification's examples. Their state counts the calls they
  received. The examples convert no number to a string, so \<open>no_digits\<close> stands in for
  \<^verbatim>\<open>Number::toString\<close> there.
\<close>

definition stub_resolving :: "jsvalue \<Rightarrow> nat provider" where
  "stub_resolving session calls params = (Inr session, Suc calls)"

definition stub_rejecting :: "js_error \<Rightarrow> nat provider" where
  "stub_rejecting err calls params = (Inl err, Suc calls)"

definition no_digits :: "jsnumber \<Rightarrow> string" where
  "no_digits n = []"

definition idle_world :: "nat world" where
  "idle_world = \<lparr> provider_state = 0, provider_calls = [], console_errors = [] \<rparr>"

section \<open>Paths through the handler\<close>

text \<open>
  After \<^verbatim>\<open>req.body || {}\<close> the destructuring never throws: the value is neither
  \<^verbatim>\<open>undefined\<close> nor \<^verbatim>\<open>null\<close>.
\<close>

lemma destructure_total:
  "\<exists>p q n. destructure (body_or_empty b) = Inr (p, q, n)"
  by (cases b) (auto simp: destructure_def body_or_empty_def)

text \<open>The check lets through exactly the numbers that are positive integers.\<close>

lemma price_check_fails_iff:
  "price_check_fails p \<longleftrightarrow> \<not> (\<exists>k::int. 0 < k \<and> p = JNumber (Finite (of_int k)))"
proof (cases p)
  case (JNumber n)
  show ?thesis
  proof (cases n)
    case (Finite q)
    show ?thesis
    proof
      assume "price_check_fails p"
      then show "\<not> (\<exists>k::int. 0 < k \<and> p = JNumber (Finite (of_int k)))"
        using JNumber Finite by (auto simp: price_check_fails_def)
    next
      assume a: "\<not> (\<exists>k::int. 0 < k \<and> p = JNumber (Finite (of_int k)))"
      show "price_check_fails p"
      proof (rule ccontr)
        assume "\<not> price_check_fails p"
        then have i: "rat_of_int \<lfloor>q\<rfloor> = q" and pos: "0 < q"
          using JNumber Finite by (auto simp: price_check_fails_def)
        from i pos have "0 < \<lfloor>q\<rfloor>" by (metis of_int_0_less_iff)
        with i a JNumber Finite show False by metis
      qed
    qed
  qed (use JNumber in \<open>auto simp: price_check_fails_def\<close>)
qed (auto simp: price_check_fails_def)

text \<open>The three ways through the handler: rejected price, provider called, conversion of the name thrown.\<close>

lemma rejected_run:
  assumes "destructure (body_or_empty req_body) = Inr (price, qty, nm)"
    and "price_check_fails price"
  shows "create_checkout_session n2s env create req_body w =
           (\<lparr> status = 400,
              json = [(''error'', JString ''price must be a positive integer (in cents)'')] \<rparr>, w)"
  using assms by (simp add: create_checkout_session_def try_block_def)

lemma accepted_run:
  assumes "destructure (body_or_empty req_body) = Inr (price, qty, nm)"
    and "\<not> price_check_fails price"
    and "js_String n2s nm = Inr display"
    and "create (provider_state w) (checkout_params env price qty display) = (outcome, p')"
  shows "try_block n2s env create req_body w =
           (case outcome of
              Inl e \<Rightarrow> Inl e
            | Inr session \<Rightarrow>
               (case get_field session ''url'' of
                  Inl e \<Rightarrow> Inl e
                | Inr u \<Rightarrow> Inr \<lparr> status = 200, json = [(''url'', u)] \<rparr>),
            w \<lparr> provider_state := p',
                provider_calls := provider_calls w @ [checkout_params env price qty display] \<rparr>)"
  using assms by (simp add: try_block_def split: sum.splits)

lemma conversion_error_run:
  assumes "destructure (body_or_empty req_body) = Inr (price, qty, nm)"
    and "\<not> price_check_fails price"
    and "js_String n2s nm = Inl err"
  shows "create_checkout_session n2s env create req_body w =
           (\<lparr> status = 500, json = [(''error'', JString (message err))] \<rparr>,
            w \<lparr> console_errors := console_errors w @ [err] \<rparr>)"
  using assms by (simp add: create_checkout_session_def try_block_def)

text \<open>Status 400 is the answer exactly when the price check fails.\<close>

lemma status_400_iff:
  assumes "destructure (body_or_empty req_body) = Inr (price, qty, nm)"
  shows "(status (fst (create_checkout_session n2s env create req_body w)) = 400) =
           price_check_fails price"
proof (cases "price_check_fails price")
  case True
  then show ?thesis
    using rejected_run [where create = create and w = w, OF assms True] by simp
next
  case False
  show ?thesis
  proof (cases "js_String n2s nm")
    case (Inl err)
    then show ?thesis
      using conversion_error_run [where create = create and w = w, OF assms False Inl] False
      by simp
  next
    case (Inr display)
    obtain outcome p' where
      c: "create (provider_state w) (checkout_params env price qty display) = (outcome, p')"
      by (cases "create (provider_state w) (checkout_params env price qty display)")
    show ?thesis
      using accepted_run [where create = create and w = w and env = env, OF assms False Inr c] False
      by (simp add: create_checkout_session_def split: sum.splits)
  qed
qed

text \<open>When the check passes and the name converts, the provider is called once, with the object literal.\<close>

lemma called_with:
  assumes "destructure (body_or_empty req_body) = Inr (price, qty, nm)"
    and "\<not> price_check_fails price"
    and "js_String n2s nm = Inr display"
  shows "provider_calls (snd (create_checkout_session n2s env create req_body w)) =
           provider_calls w @ [checkout_params env price qty display]"
proof -
  obtain outcome p' where
    c: "create (provider_state w) (checkout_params env price qty display) = (outcome, p')"
    by (cases "create (provider_state w) (checkout_params env price qty display)")
  show ?thesis
    using accepted_run [where create = create and w = w and env = env, OF assms c]
    by (simp add: create_checkout_session_def split: sum.splits)
qed

text \<open>A body whose first property is the price: what the destructuring gives.\<close>

lemma price_first:
  "destructure (body_or_empty (JObject ((''price'', p) # rest))) =
     Inr (or_default p (JNumber (Finite 1500)),
          or_default (case map_of rest ''quantity'' of Some v \<Rightarrow> v | None \<Rightarrow> Undefined)
            (JNumber (Finite 1)),
          or_default (case map_of rest ''name'' of Some v \<Rightarrow> v | None \<Rightarrow> Undefined)
            (JString ''Test Product''))"
  by (simp add: destructure_def body_or_empty_def)

text \<open>The floor of a quotient of numerals, for evaluating \<open>Number_isInteger\<close>.\<close>

lemma floor_rat_quotient: "\<lfloor>numeral a / numeral b :: rat\<rfloor> = numeral a div numeral b"
  by (metis floor_divide_of_int_eq of_int_numeral)

section \<open>The claims\<close>

text \<open>
  Claim C1. Whenever the price, after the default has been substituted, is not an integer,
  is zero or is negative, the handler answers with status 400 and the message
  \<^verbatim>\<open>price must be a positive integer (in cents)\<close>, and the world is as before: the
  provider has received no call, its state is untouched and nothing was logged.
\<close>

theorem invalid_price_rejected_without_provider_call:
  assumes "destructure (body_or_empty req_body) = Inr (price, qty, nm)"
    and "(\<forall>k::int. price \<noteq> JNumber (Finite (of_int k)))
         \<or> price = JNumber (Finite 0)
         \<or> (\<exists>q. q < 0 \<and> price = JNumber (Finite q))"
  shows "create_checkout_session n2s env create req_body w =
           (\<lparr> status = 400,
              json = [(''error'', JString ''price must be a positive integer (in cents)'')] \<rparr>, w)"
proof -
  from assms(2) have "price_check_fails price"
    unfolding price_check_fails_iff by auto
  with assms(1) show ?thesis by (rule rejected_run)
qed

theorem invalid_price_rejected_witness:
  "create_checkout_session no_digits None (stub_resolving (JObject [(''url'', JString ''X'')]))
     (JObject [(''price'', JNumber (Finite (3 / 2)))]) idle_world =
   (\<lparr> status = 400,
      json = [(''error'', JString ''price must be a positive integer (in cents)'')] \<rparr>,
    \<lparr> provider_state = 0, provider_calls = [], console_errors = [] \<rparr>)"
proof -
  have d: "destructure (body_or_empty (JObject [(''price'', JNumber (Finite (3 / 2)))])) =
             Inr (JNumber (Finite (3 / 2)), JNumber (Finite 1), JString ''Test Product'')"
    by (simp add: destructure_def body_or_empty_def or_default_def)
  have n: "\<forall>k::int. JNumber (Finite (3 / 2)) \<noteq> JNumber (Finite (of_int k))"
  proof (intro allI notI)
    fix k :: int
    assume "JNumber (Finite (3 / 2)) = JNumber (Finite (of_int k))"
    then have "rat_of_int (2 * k) = rat_of_int 3" by simp
    then have "2 * k = 3" by (simp only: of_int_eq_iff)
    then show False by presburger
  qed
  show ?thesis
    using invalid_price_rejected_without_provider_call [OF d disjI1, OF n]
    by (simp add: idle_world_def)
qed

text \<open>
  Claim C2. Whenever the provider call is reached (the price check passed and the name was
  converted) and the call throws or rejects with an error, the handler catches it, logs it,
  and answers with status 500 and the error's message, unchanged. It is instantiated at the
  specification's stub that rejects with \<^verbatim>\<open>auth failed\<close>.
\<close>

theorem provider_error_answered_500:
  assumes "destructure (body_or_empty req_body) = Inr (price, qty, nm)"
    and "\<not> price_check_fails price"
    and "js_String n2s nm = Inr display"
    and "create (provider_state w) (checkout_params env price qty display) = (Inl err, p')"
  shows "create_checkout_session n2s env create req_body w =
           (\<lparr> status = 500, json = [(''error'', JString (message err))] \<rparr>,
            w \<lparr> provider_state := p',
                provider_calls := provider_calls w @ [checkout_params env price qty display],
                console_errors := console_errors w @ [err] \<rparr>)"
  using accepted_run [where create = create and w = w and env = env, OF assms] by (simp add: create_checkout_session_def)

theorem provider_error_witness:
  "fst (create_checkout_session no_digits None
          (stub_rejecting (JsError ''StripeAuthenticationError'' ''auth failed''))
          (JObject [(''price'', JNumber (Finite 2000))]) idle_world) =
   \<lparr> status = 500, json = [(''error'', JString ''auth failed'')] \<rparr>"
proof -
  have d: "destructure (body_or_empty (JObject [(''price'', JNumber (Finite 2000))])) =
             Inr (JNumber (Finite 2000), JNumber (Finite 1), JString ''Test Product'')"
    by (simp add: destructure_def body_or_empty_def or_default_def)
  have v: "\<not> price_check_fails (JNumber (Finite 2000))"
    by (simp add: price_check_fails_def)
  have s: "js_String no_digits (JString ''Test Product'') = Inr ''Test Product''"
    by simp
  have c: "stub_rejecting (JsError ''StripeAuthenticationError'' ''auth failed'')
             (provider_state idle_world)
             (checkout_params None (JNumber (Finite 2000)) (JNumber (Finite 1)) ''Test Product'') =
           (Inl (JsError ''StripeAuthenticationError'' ''auth failed''), Suc 0)"
    by (simp add: stub_rejecting_def idle_world_def)
  show ?thesis
    using provider_error_answered_500
            [where create = "stub_rejecting (JsError ''StripeAuthenticationError'' ''auth failed'')"
               and w = idle_world and env = None, OF d v s c]
    by simp
qed

text \<open>
  Claim C3. For a price that is a positive integer, once the name is converted the provider
  is called exactly once, and the argument has exactly one line item, with currency
  \<^verbatim>\<open>eur\<close>, the price as unit amount, the quantity as destructured, the converted name as
  product name; the mode is \<^verbatim>\<open>payment\<close>; the success URL is the frontend base URL
  followed by a path that carries the placeholder \<^verbatim>\<open>{CHECKOUT_SESSION_ID}\<close>, the
  cancellation URL the same base followed by \<^verbatim>\<open>/cancelled\<close>. It is instantiated at the
  specification's example: price 2000, quantity 2, name Widget, a stub that returns the URL X.
\<close>

theorem descriptor_of_valid_input:
  assumes "destructure (body_or_empty req_body) = Inr (price, qty, nm)"
    and "price = JNumber (Finite (of_int k))" and "0 < k"
    and "js_String n2s nm = Inr display"
  shows "\<exists>d item.
           provider_calls (snd (create_checkout_session n2s env create req_body w)) =
             provider_calls w @ [d]
           \<and> line_items d = [item]
           \<and> currency (price_data item) = ''eur''
           \<and> unit_amount (price_data item) = price
           \<and> quantity item = qty
           \<and> name (product_data (price_data item)) = display
           \<and> mode d = ''payment''
           \<and> success_url d = YOUR_DOMAIN env @ ''/success?session_id={CHECKOUT_SESSION_ID}''
           \<and> cancel_url d = YOUR_DOMAIN env @ ''/cancelled''"
proof -
  from assms(2,3) have v: "\<not> price_check_fails price"
    unfolding price_check_fails_iff by blast
  obtain outcome p' where
    c: "create (provider_state w) (checkout_params env price qty display) = (outcome, p')"
    by (cases "create (provider_state w) (checkout_params env price qty display)")
  have "provider_calls (snd (create_checkout_session n2s env create req_body w)) =
          provider_calls w @ [checkout_params env price qty display]"
    using accepted_run [where create = create and w = w and env = env, OF assms(1) v assms(4) c]
    by (simp add: create_checkout_session_def split: sum.splits)
  then show ?thesis
    by (simp add: checkout_params_def)
qed

theorem descriptor_example_witness:
  "provider_calls (snd (create_checkout_session no_digits (Some ''https://shop.example'')
       (stub_resolving (JObject [(''url'', JString ''X'')]))
       (JObject [(''price'', JNumber (Finite 2000)), (''quantity'', JNumber (Finite 2)),
                 (''name'', JString ''Widget'')]) idle_world)) =
     [\<lparr> mode = ''payment'',
        payment_method_types = [''card''],
        line_items =
          [\<lparr> price_data =
               \<lparr> currency = ''eur'',
                 product_data = \<lparr> name = ''Widget'' \<rparr>,
                 unit_amount = JNumber (Finite 2000) \<rparr>,
             quantity = JNumber (Finite 2) \<rparr>],
        success_url = ''https://shop.example/success?session_id={CHECKOUT_SESSION_ID}'',
        cancel_url = ''https://shop.example/cancelled'' \<rparr>]
   \<and> fst (create_checkout_session no_digits (Some ''https://shop.example'')
       (stub_resolving (JObject [(''url'', JString ''X'')]))
       (JObject [(''price'', JNumber (Finite 2000)), (''quantity'', JNumber (Finite 2)),
                 (''name'', JString ''Widget'')]) idle_world) =
     \<lparr> status = 200, json = [(''url'', JString ''X'')] \<rparr>"
proof -
  have d: "destructure (body_or_empty
             (JObject [(''price'', JNumber (Finite 2000)), (''quantity'', JNumber (Finite 2)),
                       (''name'', JString ''Widget'')])) =
             Inr (JNumber (Finite 2000), JNumber (Finite 2), JString ''Widget'')"
    by (simp add: destructure_def body_or_empty_def or_default_def)
  have p: "JNumber (Finite 2000) = JNumber (Finite (of_int 2000))" by simp
  have k: "(0::int) < 2000" by simp
  have s: "js_String no_digits (JString ''Widget'') = Inr ''Widget''" by simp
  show ?thesis
    using descriptor_of_valid_input
            [where create = "stub_resolving (JObject [(''url'', JString ''X'')])"
               and w = idle_world and env = "Some ''https://shop.example''", OF d p k s]
    by (simp add: create_checkout_session_def try_block_def destructure_def body_or_empty_def
          or_default_def price_check_fails_def checkout_params_def YOUR_DOMAIN_def
          stub_resolving_def idle_world_def)
qed

text \<open>
  Claim C4. With an empty input (an empty object, or no body at all) the provider receives
  a line item with unit amount 1500, quantity 1 and product name \<^verbatim>\<open>Test Product\<close>.
\<close>

theorem empty_input_takes_defaults:
  assumes "req_body = JObject [] \<or> req_body = Undefined"
  shows "\<exists>d item.
           provider_calls (snd (create_checkout_session n2s env create req_body w)) =
             provider_calls w @ [d]
           \<and> line_items d = [item]
           \<and> unit_amount (price_data item) = JNumber (Finite 1500)
           \<and> quantity item = JNumber (Finite 1)
           \<and> name (product_data (price_data item)) = ''Test Product''"
proof -
  have d: "destructure (body_or_empty req_body) =
             Inr (JNumber (Finite 1500), JNumber (Finite 1), JString ''Test Product'')"
    using assms by (auto simp: destructure_def body_or_empty_def or_default_def)
  have v: "\<not> price_check_fails (JNumber (Finite 1500))"
    by (simp add: price_check_fails_def)
  have s: "js_String n2s (JString ''Test Product'') = Inr ''Test Product''" by simp
  show ?thesis
    using called_with [where create = create and w = w and env = env, OF d v s]
    by (simp add: checkout_params_def)
qed

theorem empty_input_witness:
  "provider_calls (snd (create_checkout_session no_digits None
       (stub_resolving (JObject [(''url'', JString ''X'')])) (JObject []) idle_world)) =
     [\<lparr> mode = ''payment'',
        payment_method_types = [''card''],
        line_items =
          [\<lparr> price_data =
               \<lparr> currency = ''eur'',
                 product_data = \<lparr> name = ''Test Product'' \<rparr>,
                 unit_amount = JNumber (Finite 1500) \<rparr>,
             quantity = JNumber (Finite 1) \<rparr>],
        success_url = ''http://localhost:3000/success?session_id={CHECKOUT_SESSION_ID}'',
        cancel_url = ''http://localhost:3000/cancelled'' \<rparr>]"
proof -
  have e: "JObject [] = JObject [] \<or> JObject [] = Undefined" by simp
  show ?thesis
    using empty_input_takes_defaults
            [where create = "stub_resolving (JObject [(''url'', JString ''X'')])"
               and w = idle_world and env = None and ?n2s = no_digits, OF e]
    by (simp add: create_checkout_session_def try_block_def destructure_def body_or_empty_def
          or_default_def price_check_fails_def checkout_params_def YOUR_DOMAIN_def
          stub_resolving_def idle_world_def)
qed

text \<open>
  Claim C5. When the provider call succeeds with an object that has a \<^verbatim>\<open>url\<close> field,
  the handler answers with status 200 and exactly that value as \<^verbatim>\<open>url\<close>.
\<close>

theorem provider_url_returned:
  assumes "destructure (body_or_empty req_body) = Inr (price, qty, nm)"
    and "\<not> price_check_fails price"
    and "js_String n2s nm = Inr display"
    and "create (provider_state w) (checkout_params env price qty display) = (Inr (JObject ps), p')"
    and "map_of ps ''url'' = Some u"
  shows "create_checkout_session n2s env create req_body w =
           (\<lparr> status = 200, json = [(''url'', u)] \<rparr>,
            w \<lparr> provider_state := p',
                provider_calls := provider_calls w @ [checkout_params env price qty display] \<rparr>)"
  using accepted_run [where create = create and w = w and env = env, OF assms(1-4)] assms(5) by (simp add: create_checkout_session_def)

theorem provider_url_witness:
  "fst (create_checkout_session no_digits None
          (stub_resolving (JObject [(''url'', JString ''https://payments.example/session/abc'')]))
          (JObject [(''price'', JNumber (Finite 2000))]) idle_world) =
   \<lparr> status = 200, json = [(''url'', JString ''https://payments.example/session/abc'')] \<rparr>"
proof -
  have d: "destructure (body_or_empty (JObject [(''price'', JNumber (Finite 2000))])) =
             Inr (JNumber (Finite 2000), JNumber (Finite 1), JString ''Test Product'')"
    by (simp add: destructure_def body_or_empty_def or_default_def)
  have v: "\<not> price_check_fails (JNumber (Finite 2000))"
    by (simp add: price_check_fails_def)
  have s: "js_String no_digits (JString ''Test Product'') = Inr ''Test Product''"
    by simp
  have c: "stub_resolving (JObject [(''url'', JString ''https://payments.example/session/abc'')])
             (provider_state idle_world)
             (checkout_params None (JNumber (Finite 2000)) (JNumber (Finite 1)) ''Test Product'') =
           (Inr (JObject [(''url'', JString ''https://payments.example/session/abc'')]), Suc 0)"
    by (simp add: stub_resolving_def idle_world_def)
  have m: "map_of [(''url'', JString ''https://payments.example/session/abc'')] ''url'' =
             Some (JString ''https://payments.example/session/abc'')"
    by simp
  show ?thesis
    using provider_url_returned
            [where create = "stub_resolving (JObject [(''url'', JString ''https://payments.example/session/abc'')])"
               and w = idle_world and env = None, OF d v s c m]
    by simp
qed

text \<open>
  Claim C6. The price 1 passes the check: a request with price 1 is never answered 400.
  The prices 0 and \<open>-1\<close> are both rejected, with status 400 and the same message,
  whatever else the body holds.
\<close>

theorem price_boundary:
  "\<not> price_check_fails (JNumber (Finite 1))
   \<and> status (fst (create_checkout_session n2s env create
                 (JObject ((''price'', JNumber (Finite 1)) # rest)) w)) \<noteq> 400
   \<and> create_checkout_session n2s env create
         (JObject ((''price'', JNumber (Finite 0)) # rest)) w =
       (\<lparr> status = 400,
          json = [(''error'', JString ''price must be a positive integer (in cents)'')] \<rparr>, w)
   \<and> create_checkout_session n2s env create
         (JObject ((''price'', JNumber (Finite (- 1))) # rest)) w =
       (\<lparr> status = 400,
          json = [(''error'', JString ''price must be a positive integer (in cents)'')] \<rparr>, w)"
proof (intro conjI)
  show one: "\<not> price_check_fails (JNumber (Finite 1))"
    by (simp add: price_check_fails_def)
  show "status (fst (create_checkout_session n2s env create
                 (JObject ((''price'', JNumber (Finite 1)) # rest)) w)) \<noteq> 400"
    using status_400_iff [where create = create and w = w and env = env and ?n2s = n2s,
            OF price_first [of "JNumber (Finite 1)" rest]] one
    by (simp add: or_default_def)
  have zero: "price_check_fails (or_default (JNumber (Finite 0)) (JNumber (Finite 1500)))"
    by (simp add: price_check_fails_def or_default_def)
  show "create_checkout_session n2s env create
         (JObject ((''price'', JNumber (Finite 0)) # rest)) w =
       (\<lparr> status = 400,
          json = [(''error'', JString ''price must be a positive integer (in cents)'')] \<rparr>, w)"
    by (rule rejected_run [OF price_first zero])
  have neg: "price_check_fails (or_default (JNumber (Finite (- 1))) (JNumber (Finite 1500)))"
    by (simp add: price_check_fails_def or_default_def)
  show "create_checkout_session n2s env create
         (JObject ((''price'', JNumber (Finite (- 1))) # rest)) w =
       (\<lparr> status = 400,
          json = [(''error'', JString ''price must be a positive integer (in cents)'')] \<rparr>, w)"
    by (rule rejected_run [OF price_first neg])
qed

theorem price_boundary_witness:
  "status (fst (create_checkout_session no_digits None
       (stub_resolving (JObject [(''url'', JString ''X'')]))
       (JObject [(''price'', JNumber (Finite 1))]) idle_world)) = 200
   \<and> fst (create_checkout_session no_digits None
       (stub_resolving (JObject [(''url'', JString ''X'')]))
       (JObject [(''price'', JNumber (Finite 0))]) idle_world) =
     fst (create_checkout_session no_digits None
       (stub_resolving (JObject [(''url'', JString ''X'')]))
       (JObject [(''price'', JNumber (Finite (- 1)))]) idle_world)"
  using price_boundary
          [where create = "stub_resolving (JObject [(''url'', JString ''X'')])"
             and w = idle_world and env = None and ?n2s = no_digits and rest = "[]"]
  by (simp add: create_checkout_session_def try_block_def destructure_def body_or_empty_def
        or_default_def price_check_fails_def stub_resolving_def idle_world_def)

text \<open>
  Claim C7 says that a quantity that is present is coerced to an integer before it is
  placed in the provider's argument. The handler does not convert it: the object literal
  has \<^verbatim>\<open>quantity: quantity\<close>. A request with quantity 2.5 sends 2.5 to the provider.
\<close>

theorem quantity_not_coerced_counterexample:
  "map quantity (concat (map line_items (provider_calls (snd
     (create_checkout_session no_digits None
        (stub_resolving (JObject [(''url'', JString ''X'')]))
        (JObject [(''quantity'', JNumber (Finite (5 / 2)))]) idle_world))))) =
     [JNumber (Finite (5 / 2))]
   \<and> \<not> Number_isInteger (JNumber (Finite (5 / 2)))"
  by (simp add: create_checkout_session_def try_block_def destructure_def body_or_empty_def
        or_default_def price_check_fails_def checkout_params_def stub_resolving_def
        idle_world_def floor_rat_quotient)

text \<open>
  Claim C7, amended. A quantity that is present is placed in the provider's argument as
  given, with no conversion and no check of its sign or type.
\<close>

theorem quantity_forwarded_as_given:
  assumes "map_of ps ''quantity'' = Some q" and "q \<noteq> Undefined"
    and "destructure (JObject ps) = Inr (price, qty, nm)"
    and "\<not> price_check_fails price"
    and "js_String n2s nm = Inr display"
  shows "\<exists>d item.
           provider_calls (snd (create_checkout_session n2s env create (JObject ps) w)) =
             provider_calls w @ [d]
           \<and> line_items d = [item]
           \<and> quantity item = q"
proof -
  have b: "body_or_empty (JObject ps) = JObject ps"
    by (simp add: body_or_empty_def)
  from assms(3) have d: "destructure (body_or_empty (JObject ps)) = Inr (price, qty, nm)"
    by (simp only: b)
  from assms(1-3) have q: "qty = q"
    by (auto simp: destructure_def or_default_def)
  show ?thesis
    using called_with [where create = create and w = w and env = env, OF d assms(4,5)] q
    by (simp add: checkout_params_def)
qed

theorem quantity_forwarded_witness:
  "map quantity (concat (map line_items (provider_calls (snd
     (create_checkout_session no_digits None
        (stub_resolving (JObject [(''url'', JString ''X'')]))
        (JObject [(''quantity'', JString ''two'')]) idle_world))))) =
     [JString ''two'']"
proof -
  have m: "map_of [(''quantity'', JString ''two'')] ''quantity'' = Some (JString ''two'')"
    by simp
  have u: "JString ''two'' \<noteq> Undefined" by simp
  have d: "destructure (JObject [(''quantity'', JString ''two'')]) =
             Inr (JNumber (Finite 1500), JString ''two'', JString ''Test Product'')"
    by (simp add: destructure_def or_default_def)
  have v: "\<not> price_check_fails (JNumber (Finite 1500))"
    by (simp add: price_check_fails_def)
  have s: "js_String no_digits (JString ''Test Product'') = Inr ''Test Product''" by simp
  show ?thesis
    using quantity_forwarded_as_given
            [where create = "stub_resolving (JObject [(''url'', JString ''X'')])"
               and w = idle_world and env = None, OF m u d v s]
    by (auto simp: idle_world_def)
qed

text \<open>
  Claim C8. The rejection of a malformed input depends on the input alone. Whatever the
  provider, the configuration and the state of the world, the answer is the same status
  400 with the same message; and a second run on the world the first run left behind
  gives what the first run gave, so nothing is kept from one run to the next.
\<close>

theorem validation_keeps_no_state:
  assumes "destructure (body_or_empty req_body) = Inr (price, qty, nm)"
    and "price_check_fails price"
  shows "fst (create_checkout_session n2s env create req_body w) =
           \<lparr> status = 400,
             json = [(''error'', JString ''price must be a positive integer (in cents)'')] \<rparr>
         \<and> fst (create_checkout_session n2s' env' create' req_body w') =
             fst (create_checkout_session n2s env create req_body w)
         \<and> create_checkout_session n2s env create req_body
             (snd (create_checkout_session n2s env create req_body w)) =
             create_checkout_session n2s env create req_body w"
  by (simp add: rejected_run [OF assms])

theorem validation_keeps_no_state_witness:
  "fst (create_checkout_session no_digits None
          (stub_rejecting (JsError ''Error'' ''down''))
          (JObject [(''price'', JString ''15'')])
          \<lparr> provider_state = 7, provider_calls = [], console_errors = [JsError ''Error'' ''down''] \<rparr>) =
   fst (create_checkout_session no_digits None
          (stub_resolving (JObject [(''url'', JString ''X'')]))
          (JObject [(''price'', JString ''15'')]) idle_world)
   \<and> json (fst (create_checkout_session no_digits None
          (stub_resolving (JObject [(''url'', JString ''X'')]))
          (JObject [(''price'', JString ''15'')]) idle_world)) =
     [(''error'', JString ''price must be a positive integer (in cents)'')]"
proof -
  have d: "destructure (body_or_empty (JObject [(''price'', JString ''15'')])) =
             Inr (JString ''15'', JNumber (Finite 1), JString ''Test Product'')"
    by (simp add: destructure_def body_or_empty_def or_default_def)
  have f: "price_check_fails (JString ''15'')"
    by (simp add: price_check_fails_def)
  show ?thesis
    using validation_keeps_no_state
            [where create = "stub_resolving (JObject [(''url'', JString ''X'')])"
               and w = idle_world and env = None and ?n2s = no_digits
               and create' = "stub_rejecting (JsError ''Error'' ''down'')"
               and w' = "\<lparr> provider_state = 7, provider_calls = [],
                             console_errors = [JsError ''Error'' ''down''] \<rparr>"
               and env' = None and ?n2s' = no_digits, OF d f]
    by simp
qed

text \<open>
  Claim C9. Status 400 is answered exactly when the price check fails, whatever the
  quantity and the name are. When the check passes, the name goes through
  \<^verbatim>\<open>String\<close> and the quantity is not looked at: either the conversion throws (an
  object with a \<^verbatim>\<open>toString\<close> property of its own) and the answer is 500, or the
  provider is called with the quantity as given and the converted name.
\<close>

theorem only_price_is_validated:
  assumes "destructure (body_or_empty req_body) = Inr (price, qty, nm)"
  shows "(status (fst (create_checkout_session n2s env create req_body w)) = 400) =
           price_check_fails price
         \<and> (\<not> price_check_fails price \<longrightarrow>
              (case js_String n2s nm of
                 Inl err \<Rightarrow>
                   create_checkout_session n2s env create req_body w =
                     (\<lparr> status = 500, json = [(''error'', JString (message err))] \<rparr>,
                      w \<lparr> console_errors := console_errors w @ [err] \<rparr>)
               | Inr display \<Rightarrow>
                   provider_calls (snd (create_checkout_session n2s env create req_body w)) =
                     provider_calls w @ [checkout_params env price qty display]))"
proof (intro conjI impI)
  show "(status (fst (create_checkout_session n2s env create req_body w)) = 400) =
           price_check_fails price"
    by (rule status_400_iff [OF assms])
next
  assume v: "\<not> price_check_fails price"
  show "case js_String n2s nm of
          Inl err \<Rightarrow>
            create_checkout_session n2s env create req_body w =
              (\<lparr> status = 500, json = [(''error'', JString (message err))] \<rparr>,
               w \<lparr> console_errors := console_errors w @ [err] \<rparr>)
        | Inr display \<Rightarrow>
            provider_calls (snd (create_checkout_session n2s env create req_body w)) =
              provider_calls w @ [checkout_params env price qty display]"
  proof (cases "js_String n2s nm")
    case (Inl err)
    then show ?thesis
      using conversion_error_run [where create = create and w = w, OF assms v Inl] by simp
  next
    case (Inr display)
    then show ?thesis
      using called_with [where create = create and w = w and env = env, OF assms v Inr] by simp
  qed
qed

theorem only_price_is_validated_witness:
  "status (fst (create_checkout_session no_digits None
       (stub_resolving (JObject [(''url'', JString ''X'')]))
       (JObject [(''quantity'', JString ''many''), (''name'', JObject [(''toString'', Null)])])
       idle_world)) = 500
   \<and> provider_calls (snd (create_checkout_session no_digits None
       (stub_resolving (JObject [(''url'', JString ''X'')]))
       (JObject [(''quantity'', JArray []), (''name'', JBoolean True)]) idle_world)) =
     [checkout_params None (JNumber (Finite 1500)) (JArray []) ''true'']"
proof -
  have d1: "destructure (body_or_empty
              (JObject [(''quantity'', JString ''many''), (''name'', JObject [(''toString'', Null)])])) =
             Inr (JNumber (Finite 1500), JString ''many'', JObject [(''toString'', Null)])"
    by (simp add: destructure_def body_or_empty_def or_default_def)
  have d2: "destructure (body_or_empty
              (JObject [(''quantity'', JArray []), (''name'', JBoolean True)])) =
             Inr (JNumber (Finite 1500), JArray [], JBoolean True)"
    by (simp add: destructure_def body_or_empty_def or_default_def)
  have v: "\<not> price_check_fails (JNumber (Finite 1500))"
    by (simp add: price_check_fails_def)
  show ?thesis
    using only_price_is_validated
            [where create = "stub_resolving (JObject [(''url'', JString ''X'')])"
               and w = idle_world and env = None and ?n2s = no_digits, OF d1]
          only_price_is_validated
            [where create = "stub_resolving (JObject [(''url'', JString ''X'')])"
               and w = idle_world and env = None and ?n2s = no_digits, OF d2]
          v
    by (simp add: idle_world_def TypeError_def)
qed

text \<open>
  Claim C10. A default stands in for an absent field only, not for \<^verbatim>\<open>null\<close>: a body
  whose price is \<^verbatim>\<open>null\<close> is answered 400 without a provider call, and a
  \<^verbatim>\<open>null\<close> quantity and name reach the provider as \<^verbatim>\<open>null\<close> and as the
  string \<^verbatim>\<open>null\<close>, not as 1 and \<^verbatim>\<open>Test Product\<close>.
\<close>

theorem null_is_not_defaulted:
  "create_checkout_session n2s env create (JObject ((''price'', Null) # rest)) w =
     (\<lparr> status = 400,
        json = [(''error'', JString ''price must be a positive integer (in cents)'')] \<rparr>, w)
   \<and> provider_calls (snd (create_checkout_session n2s env create
        (JObject [(''quantity'', Null), (''name'', Null)]) w)) =
     provider_calls w @ [checkout_params env (JNumber (Finite 1500)) Null ''null'']"
proof (intro conjI)
  have f: "price_check_fails (or_default Null (JNumber (Finite 1500)))"
    by (simp add: price_check_fails_def or_default_def)
  show "create_checkout_session n2s env create (JObject ((''price'', Null) # rest)) w =
     (\<lparr> status = 400,
        json = [(''error'', JString ''price must be a positive integer (in cents)'')] \<rparr>, w)"
    by (rule rejected_run [OF price_first f])
  have d: "destructure (body_or_empty (JObject [(''quantity'', Null), (''name'', Null)])) =
             Inr (JNumber (Finite 1500), Null, Null)"
    by (simp add: destructure_def body_or_empty_def or_default_def)
  have v: "\<not> price_check_fails (JNumber (Finite 1500))"
    by (simp add: price_check_fails_def)
  have s: "js_String n2s Null = Inr ''null''" by simp
  show "provider_calls (snd (create_checkout_session n2s env create
        (JObject [(''quantity'', Null), (''name'', Null)]) w)) =
     provider_calls w @ [checkout_params env (JNumber (Finite 1500)) Null ''null'']"
    by (rule called_with [OF d v s])
qed

theorem null_is_not_defaulted_witness:
  "create_checkout_session no_digits None
     (stub_resolving (JObject [(''url'', JString ''X'')]))
     (JObject [(''price'', Null)]) idle_world =
     (\<lparr> status = 400,
        json = [(''error'', JString ''price must be a positive integer (in cents)'')] \<rparr>,
      idle_world)
   \<and> map quantity (concat (map line_items (provider_calls (snd
       (create_checkout_session no_digits None
          (stub_resolving (JObject [(''url'', JString ''X'')]))
          (JObject [(''quantity'', Null), (''name'', Null)]) idle_world))))) = [Null]"
  using null_is_not_defaulted
          [where create = "stub_resolving (JObject [(''url'', JString ''X'')])"
             and w = idle_world and env = None and ?n2s = no_digits and rest = "[]"]
  by (simp add: idle_world_def checkout_params_def)

end
